theory Spec2Isabelle
  imports Complex_Main
begin

section \<open>The JavaScript runtime the services run on\<close>

text \<open>
  The services compute with JavaScript \<open>Date\<close> objects and with the runtime's timezone
  database. A valid \<open>Date\<close> is its time value: the number of milliseconds since
  1970-01-01T00:00:00Z, at most 8640000000000000 either way. A \<open>Date\<close> whose time value is
  \<open>NaN\<close> is \<open>InvalidDate\<close>.

  The runtime is a parameter of every modelled function: the identifier of the device's
  own zone, and the timezone database as two functions of a zone identifier.
  \<open>zoneOffset z t\<close> is the offset from UTC, in minutes (east positive), that the zone \<open>z\<close>
  has at the instant \<open>t\<close>. \<open>wallOffset z w\<close> is the offset the runtime takes to turn the
  wall-clock time \<open>w\<close> of the zone \<open>z\<close> into an instant, \<open>w\<close> being the milliseconds from
  1970-01-01T00:00 on that wall clock. For the device's zone they are ECMAScript's
  \<open>LocalTZA(t, true)\<close> and \<open>LocalTZA(t, false)\<close>; the two differ around a daylight-saving
  switch, where a wall-clock time does not exist or exists twice.

  The field functions below are ECMAScript's own (\<open>Day\<close>, \<open>WeekDay\<close>, \<open>HourFromTime\<close>,
  \<open>MakeTime\<close>, \<open>MakeDay\<close>, \<open>MakeDate\<close>, \<open>TimeClip\<close>), on the proleptic Gregorian
  calendar. Integer division on \<open>int\<close> rounds down, as ECMAScript's \<open>floor\<close> does. Time
  values are integers here and doubles in JavaScript. The services call the setters with
  whole hours and minutes that are not negative (or the hour -1) and with 0 seconds and
  milliseconds, on a valid \<open>Date\<close>: the doubles are then exact wherever the result is a valid
  \<open>Date\<close>, and out of its range wherever the integer result is.
\<close>

type_synonym Date = int

datatype DateObject = InvalidDate | DateOf Date

record Runtime =
  deviceTimeZone :: string
  zoneOffset :: "string \<Rightarrow> int \<Rightarrow> int"
  wallOffset :: "string \<Rightarrow> int \<Rightarrow> int"

definition LocalTime :: "Runtime \<Rightarrow> Date \<Rightarrow> int" where
  "LocalTime rt t = t + zoneOffset rt (deviceTimeZone rt) t * 60000"

definition UTC :: "Runtime \<Rightarrow> int \<Rightarrow> int" where
  "UTC rt w = w - wallOffset rt (deviceTimeZone rt) w * 60000"

definition TimeClip :: "int \<Rightarrow> DateObject" where
  "TimeClip t =
     (if - 8640000000000000 \<le> t \<and> t \<le> 8640000000000000 then DateOf t else InvalidDate)"

definition Day :: "int \<Rightarrow> int" where
  "Day t = t div 86400000"

definition TimeWithinDay :: "int \<Rightarrow> int" where
  "TimeWithinDay t = t mod 86400000"

definition WeekDay :: "int \<Rightarrow> nat" where
  "WeekDay t = nat ((Day t + 4) mod 7)"

definition HourFromTime :: "int \<Rightarrow> int" where
  "HourFromTime t = (t div 3600000) mod 24"

definition MinFromTime :: "int \<Rightarrow> int" where
  "MinFromTime t = (t div 60000) mod 60"

definition SecFromTime :: "int \<Rightarrow> int" where
  "SecFromTime t = (t div 1000) mod 60"

definition msFromTime :: "int \<Rightarrow> int" where
  "msFromTime t = t mod 1000"

definition MakeTime :: "int \<Rightarrow> int \<Rightarrow> int \<Rightarrow> int \<Rightarrow> int" where
  "MakeTime h m s ms = h * 3600000 + m * 60000 + s * 1000 + ms"

definition MakeDate :: "int \<Rightarrow> int \<Rightarrow> int" where
  "MakeDate day time = day * 86400000 + time"

text \<open>
  The civil date (year, month 1..12, day of month) of a day number, and the day number
  of a civil date: the era-based conversion of the Gregorian calendar (an era is 400
  years, 146097 days, counted from 1 March of year 0). The conversion goes from the day
  of the era \<open>doe\<close> to the year of the era \<open>yoe\<close>, to the day of the year \<open>doy\<close> counted
  from 1 March, to the month \<open>mp\<close> counted from March, one step a definition.
\<close>

definition civil_of_month :: "int \<Rightarrow> int \<Rightarrow> int \<Rightarrow> int \<times> int \<times> int" where
  "civil_of_month y m d = (if m \<le> 2 then y + 1 else y, m, d)"

definition civil_of_doy :: "int \<Rightarrow> int \<Rightarrow> int \<Rightarrow> int \<times> int \<times> int" where
  "civil_of_doy y doy mp =
     civil_of_month y (if mp < 10 then mp + 3 else mp - 9) (doy - (153 * mp + 2) div 5 + 1)"

definition civil_of_yoe :: "int \<Rightarrow> int \<Rightarrow> int \<Rightarrow> int \<times> int \<times> int" where
  "civil_of_yoe era doe yoe =
     (let doy = doe - (365 * yoe + yoe div 4 - yoe div 100)
      in civil_of_doy (yoe + era * 400) doy ((5 * doy + 2) div 153))"

definition civil_of_doe :: "int \<Rightarrow> int \<Rightarrow> int \<times> int \<times> int" where
  "civil_of_doe era doe =
     civil_of_yoe era doe ((doe - doe div 1460 + doe div 36524 - doe div 146096) div 365)"

definition civil_from_days :: "int \<Rightarrow> int \<times> int \<times> int" where
  "civil_from_days z0 =
     (let z = z0 + 719468;
          era = z div 146097
      in civil_of_doe era (z - era * 146097))"

definition days_from_civil :: "int \<Rightarrow> int \<Rightarrow> int \<Rightarrow> int" where
  "days_from_civil y0 m d =
     (let y = (if m \<le> 2 then y0 - 1 else y0);
          era = y div 400;
          yoe = y - era * 400;
          doy = (153 * (if m > 2 then m - 3 else m + 9) + 2) div 5 + d - 1;
          doe = yoe * 365 + yoe div 4 - yoe div 100 + doy
      in era * 146097 + doe - 719468)"

definition YearFromTime :: "int \<Rightarrow> int" where
  "YearFromTime t = fst (civil_from_days (Day t))"

definition MonthFromTime :: "int \<Rightarrow> int" where
  "MonthFromTime t = fst (snd (civil_from_days (Day t)))"

definition DateFromTime :: "int \<Rightarrow> int" where
  "DateFromTime t = snd (snd (civil_from_days (Day t)))"

text \<open>
  \<open>MakeDay\<close> with the month given as 1..12 and any day number \<open>dt\<close>: day \<open>dt\<close>
  counted from the first of the month, running over into the neighbouring months when
  \<open>dt\<close> is outside the month.
\<close>

definition MakeDay :: "int \<Rightarrow> int \<Rightarrow> int \<Rightarrow> int" where
  "MakeDay y m dt = days_from_civil y m 1 + dt - 1"

subsection \<open>Methods of \<open>Date\<close>, in the device's zone\<close>

definition getDay :: "Runtime \<Rightarrow> Date \<Rightarrow> nat" where
  "getDay rt d = WeekDay (LocalTime rt d)"

definition getDate :: "Runtime \<Rightarrow> Date \<Rightarrow> int" where
  "getDate rt d = DateFromTime (LocalTime rt d)"

definition getHours :: "Runtime \<Rightarrow> Date \<Rightarrow> int" where
  "getHours rt d = HourFromTime (LocalTime rt d)"

definition getMinutes :: "Runtime \<Rightarrow> Date \<Rightarrow> int" where
  "getMinutes rt d = MinFromTime (LocalTime rt d)"

text \<open>
  The setters change the \<open>Date\<close> in place; the model returns the new \<open>Date\<close>, which is
  invalid when the time value leaves the range.

  \<open>d.setHours(h, m, s, ms)\<close>: the same local day, the time of day replaced.
\<close>

definition setHours :: "Runtime \<Rightarrow> Date \<Rightarrow> int \<Rightarrow> int \<Rightarrow> int \<Rightarrow> int \<Rightarrow> DateObject" where
  "setHours rt d h m s ms =
     TimeClip (UTC rt (MakeDate (Day (LocalTime rt d)) (MakeTime h m s ms)))"

text \<open>\<open>d.setMinutes(m)\<close>: hour, second and millisecond kept.\<close>

definition setMinutes :: "Runtime \<Rightarrow> Date \<Rightarrow> int \<Rightarrow> DateObject" where
  "setMinutes rt d m =
     (let t = LocalTime rt d
      in TimeClip (UTC rt (MakeDate (Day t)
           (MakeTime (HourFromTime t) m (SecFromTime t) (msFromTime t)))))"

text \<open>\<open>d.setDate(dt)\<close>: day \<open>dt\<close> of the month \<open>d\<close> is in, the time of day kept.\<close>

definition setDate :: "Runtime \<Rightarrow> Date \<Rightarrow> int \<Rightarrow> DateObject" where
  "setDate rt d dt =
     (let t = LocalTime rt d
      in TimeClip (UTC rt (MakeDate (MakeDay (YearFromTime t) (MonthFromTime t) dt)
           (TimeWithinDay t))))"

subsection \<open>Numbers and strings\<close>

definition digit_char :: "nat \<Rightarrow> char" where
  "digit_char n = ''0123456789'' ! (n mod 10)"

text \<open>\<open>n.toString()\<close> for a natural number.\<close>

function toString :: "nat \<Rightarrow> string" where
  "toString n = (if n < 10 then [digit_char n] else toString (n div 10) @ [digit_char n])"
  by pat_completeness auto
termination
  by (relation "measure id") auto

text \<open>\<open>s.padStart(n, c)\<close> for a one-character pad string.\<close>

definition padStart :: "string \<Rightarrow> nat \<Rightarrow> char \<Rightarrow> string" where
  "padStart s n c = replicate (n - length s) c @ s"

definition pad2 :: "int \<Rightarrow> string" where
  "pad2 n = padStart (toString (nat n)) 2 (CHR ''0'')"

text \<open>
  \<open>d.toTimeString().slice(0, 5)\<close>: the local time of day as \<open>HH:MM\<close>.
\<close>

definition toTimeString5 :: "Runtime \<Rightarrow> Date \<Rightarrow> string" where
  "toTimeString5 rt d = pad2 (getHours rt d) @ '':'' @ pad2 (getMinutes rt d)"

text \<open>
  \<open>s.split(':')\<close>: the pieces between the colons (one piece, the whole string, when
  there is no colon).
\<close>

fun split_colon :: "string \<Rightarrow> string list" where
  "split_colon [] = [[]]"
| "split_colon (c # cs) =
     (if c = CHR '':'' then [] # split_colon cs
      else (case split_colon cs of p # ps \<Rightarrow> (c # p) # ps | [] \<Rightarrow> [[c]]))"

definition is_digit :: "char \<Rightarrow> bool" where
  "is_digit c = (48 \<le> (of_char c :: nat) \<and> (of_char c :: nat) \<le> 57)"

text \<open>
  \<open>Number(s)\<close> on the strings a time of day is written with: a string of decimal digits
  is its value, the empty string is 0. Every other string is \<open>NaN\<close> here (\<open>None\<close>);
  the numerals with a sign, a fraction, an exponent, another base or surrounding blanks,
  which JavaScript also reads, are outside the model.
\<close>

definition Number_of :: "string \<Rightarrow> int option" where
  "Number_of s =
     (if list_all is_digit s
      then Some (foldl (\<lambda>acc c. acc * 10 + (int (of_char c) - 48)) 0 s)
      else None)"

text \<open>
  \<open>const [hour, minute] = s.split(':').map(Number)\<close>: the first two pieces as numbers.
  The result is \<open>None\<close> when either is \<open>NaN\<close> or the second piece is missing
  (\<open>undefined\<close>): \<open>setHours\<close> then yields an invalid \<open>Date\<close>.
\<close>

definition parseHourMinute :: "string \<Rightarrow> (int \<times> int) option" where
  "parseHourMinute s =
     (case map Number_of (split_colon s) of
        Some h # Some m # _ \<Rightarrow> Some (h, m)
      | _ \<Rightarrow> None)"

text \<open>
  \<open>a > b\<close> on strings: JavaScript compares code unit by code unit, a proper prefix
  being smaller.
\<close>

fun string_less :: "string \<Rightarrow> string \<Rightarrow> bool" where
  "string_less [] [] = False"
| "string_less [] (y # ys) = True"
| "string_less (x # xs) [] = False"
| "string_less (x # xs) (y # ys) =
     (if x = y then string_less xs ys else (of_char x :: nat) < of_char y)"

section \<open>DateTimeService\<close>

text \<open>
  The interfaces of the module. The \<open>id\<close> of a \<open>TimeSlot\<close> is written \<open>slot_id\<close>, and the
  \<open>isOpen\<close> of the object \<open>getStoreStatus\<close> returns is written \<open>status_isOpen\<close>.
\<close>

record TimeSlot =
  slot_id :: string
  time :: string
  displayTime :: string
  isAvailable :: bool
  isSelected :: bool

record StoreHours =
  dayOfWeek :: nat
  openTime :: string
  closeTime :: string

record StoreOverride =
  date :: string
  isOpen :: bool
  openTime :: "string option"
  closeTime :: "string option"
  reason :: "string option"

record StoreConfig =
  timezone :: string
  hours :: "StoreHours list"
  overrides :: "StoreOverride list"

text \<open>
  \<open>getCurrentTimeInTimezone(timezone)\<close>: the current instant \<open>now\<close> is printed as its
  wall-clock time in \<open>timezone\<close> (to the second) and the text is read back as a time of
  the device's zone. The \<open>Date\<close> returned has, as its local fields, the wall clock of
  \<open>timezone\<close>.
\<close>

definition getCurrentTimeInTimezone :: "Runtime \<Rightarrow> Date \<Rightarrow> string \<Rightarrow> Date" where
  "getCurrentTimeInTimezone rt now tz =
     (let wall = now + zoneOffset rt tz now * 60000
      in UTC rt (wall - wall mod 1000))"

text \<open>
  \<open>formatDateForAPI(date, timezone)\<close>: the calendar date of \<open>date\<close> in \<open>timezone\<close>,
  as the \<open>en-CA\<close> locale prints it, \<open>YYYY-MM-DD\<close> (years from 1000 on).
\<close>

definition formatDateForAPI :: "Runtime \<Rightarrow> Date \<Rightarrow> string \<Rightarrow> string" where
  "formatDateForAPI rt d tz =
     (let t = d + zoneOffset rt tz d * 60000
      in toString (nat (YearFromTime t)) @ ''-'' @ pad2 (MonthFromTime t) @ ''-''
           @ pad2 (DateFromTime t))"

text \<open>
  \<open>isStoreOpen(date, timezone)\<close>, on the configuration \<open>STORE_CONFIG\<close> holds when it is
  called. \<open>find\<close> is \<open>Array.prototype.find\<close>: the first element that satisfies the test.
\<close>

definition isStoreOpen :: "Runtime \<Rightarrow> StoreConfig \<Rightarrow> Date \<Rightarrow> string \<Rightarrow> bool" where
  "isStoreOpen rt cfg d tz =
     (let dateString = formatDateForAPI rt d tz
      in case find (\<lambda>ov. date ov = dateString) (overrides cfg) of
           Some override \<Rightarrow> isOpen override
         | None \<Rightarrow>
             (let dow = getDay rt d
              in find (\<lambda>h. dayOfWeek h = dow) (hours cfg) \<noteq> None))"

record StoreStatus =
  status_isOpen :: bool
  nextOpen :: "string option"

definition getStoreStatus :: "Runtime \<Rightarrow> StoreConfig \<Rightarrow> Date \<Rightarrow> string \<Rightarrow> StoreStatus" where
  "getStoreStatus rt cfg now tz =
     (let now' = getCurrentTimeInTimezone rt now tz;
          isOpen = isStoreOpen rt cfg now' tz
      in \<lparr>status_isOpen = isOpen, nextOpen = None\<rparr>)"

text \<open>
  \<open>d.toLocaleTimeString('en-US', {hour: 'numeric', minute: '2-digit', hour12: true,
  timeZone})\<close>: the twelve-hour wall clock of \<open>timezone\<close>, as in \<open>9:00 AM\<close>.
\<close>

definition toLocaleTimeString :: "Runtime \<Rightarrow> Date \<Rightarrow> string \<Rightarrow> string" where
  "toLocaleTimeString rt d tz =
     (let t = d + zoneOffset rt tz d * 60000;
          h = HourFromTime t
      in toString (nat (if h mod 12 = 0 then 12 else h mod 12)) @ '':'' @ pad2 (MinFromTime t)
           @ (if h < 12 then '' AM'' else '' PM''))"

text \<open>The object \<open>generateTimeSlots\<close> pushes for the loop's \<open>currentTime\<close>.\<close>

definition makeSlot :: "Runtime \<Rightarrow> string \<Rightarrow> string \<Rightarrow> Date \<Rightarrow> TimeSlot" where
  "makeSlot rt dateString tz currentTime =
     \<lparr>slot_id = dateString @ ''-'' @ toTimeString5 rt currentTime,
      time = toTimeString5 rt currentTime,
      displayTime = toLocaleTimeString rt currentTime tz,
      isAvailable = True,
      isSelected = False\<rparr>"

text \<open>
  The loop of \<open>generateTimeSlots\<close>: \<open>while (currentTime < closeTime)\<close>, pushing a slot
  and moving \<open>currentTime\<close> on by \<open>setMinutes(getMinutes() + 15)\<close>. The closing time is
  written \<open>closeAt\<close>. A comparison with an invalid \<open>Date\<close> is false, so the loop ends when
  \<open>currentTime\<close> becomes invalid. Nothing in the code bounds the number of rounds: the
  result is \<open>None\<close> when the loop does not end, which a runtime whose wall clock does not
  advance would bring about.
\<close>

partial_function (option) slotLoop ::
  "Runtime \<Rightarrow> string \<Rightarrow> string \<Rightarrow> Date \<Rightarrow> Date \<Rightarrow> TimeSlot list \<Rightarrow> TimeSlot list option" where
  "slotLoop rt dateString tz currentTime closeAt slots =
     (if currentTime < closeAt
      then (case setMinutes rt currentTime (getMinutes rt currentTime + 15) of
              DateOf next \<Rightarrow>
                slotLoop rt dateString tz next closeAt
                  (slots @ [makeSlot rt dateString tz currentTime])
            | InvalidDate \<Rightarrow> Some (slots @ [makeSlot rt dateString tz currentTime]))
      else Some slots)"

text \<open>
  \<open>generateTimeSlots(date, timezone)\<close>: \<open>Some\<close> of the array returned. When a time
  string does not parse, or the hours are out of a \<open>Date\<close>'s range, \<open>setHours\<close> yields an
  invalid \<open>Date\<close>, the loop's comparison is false at once and no slot is pushed.
\<close>

definition generateTimeSlots ::
  "Runtime \<Rightarrow> StoreConfig \<Rightarrow> Date \<Rightarrow> string \<Rightarrow> TimeSlot list option" where
  "generateTimeSlots rt cfg d tz =
     (let dow = getDay rt d;
          dateString = formatDateForAPI rt d tz
      in if \<not> isStoreOpen rt cfg d tz then Some []
         else (case find (\<lambda>h. dayOfWeek h = dow) (hours cfg) of
                 None \<Rightarrow> Some []
               | Some storeHours \<Rightarrow>
                   (case parseHourMinute (StoreHours.openTime storeHours) of
                      None \<Rightarrow> Some []
                    | Some (openHour, openMinute) \<Rightarrow>
                        (case parseHourMinute (StoreHours.closeTime storeHours) of
                           None \<Rightarrow> Some []
                         | Some (closeHour, closeMinute) \<Rightarrow>
                             (case setHours rt d openHour openMinute 0 0 of
                                InvalidDate \<Rightarrow> Some []
                              | DateOf openAt \<Rightarrow>
                                  (case setHours rt d closeHour closeMinute 0 0 of
                                     InvalidDate \<Rightarrow> Some []
                                   | DateOf closeAt \<Rightarrow>
                                       slotLoop rt dateString tz openAt closeAt []))))))"

section \<open>LocationService\<close>

text \<open>
  Coordinates are JavaScript numbers, doubles; the model reads a coordinate as the real
  number the double is. The bounds of \<open>isInNYCArea\<close> are the doubles the literals
  40.9176, 40.4774, -73.7004 and -74.2591 denote, written as fractions with a power of
  two below.
\<close>

record Coordinates =
  latitude :: real
  longitude :: real

record LocationData =
  city :: string
  region :: string
  country :: string
  timezone :: string
  coordinates :: Coordinates

definition formatLocationForDisplay :: "LocationData \<Rightarrow> string" where
  "formatLocationForDisplay location =
     (if city location \<noteq> [] \<and> region location \<noteq> [] then city location @ '', '' @ region location
      else if city location \<noteq> [] then city location
      else if region location \<noteq> [] then region location
      else ''Current Location'')"

definition isInNYCArea :: "LocationData \<Rightarrow> bool" where
  "isInNYCArea location =
     (latitude (coordinates location) \<ge> 2848343805576977 / 70368744177664 \<and>
      latitude (coordinates location) \<le> 5758640253527969 / 140737488355328 \<and>
      longitude (coordinates location) \<ge> - (5225519610763569 / 70368744177664) \<and>
      longitude (coordinates location) \<le> - (1296551148347877 / 17592186044416))"

definition getAlternativeTimezone :: "LocationData option \<Rightarrow> string" where
  "getAlternativeTimezone location =
     (case location of
        None \<Rightarrow> ''America/New_York''
      | Some l \<Rightarrow> if isInNYCArea l then ''America/Los_Angeles'' else ''America/New_York'')"

definition getAlternativeCityName :: "LocationData option \<Rightarrow> string" where
  "getAlternativeCityName location =
     (case location of
        None \<Rightarrow> ''NYC''
      | Some l \<Rightarrow> if isInNYCArea l then ''LA'' else ''NYC'')"

section \<open>DateTimeService: the active timezone and the greeting\<close>

text \<open>
  The static fields of the class the modelled methods read or write, with the
  module-level variable \<open>STORE_CONFIG\<close>.
\<close>

record DateTimeService =
  STORE_CONFIG :: StoreConfig
  useAlternativeTimezone :: bool
  userLocation :: "LocationData option"
  isInitialized :: bool

definition getUserTimezone :: "DateTimeService \<Rightarrow> Runtime \<Rightarrow> string" where
  "getUserTimezone st rt =
     (case userLocation st of
        None \<Rightarrow> deviceTimeZone rt
      | Some l \<Rightarrow> if LocationData.timezone l \<noteq> [] then LocationData.timezone l
                  else deviceTimeZone rt)"

definition getActiveTimezone :: "DateTimeService \<Rightarrow> Runtime \<Rightarrow> string" where
  "getActiveTimezone st rt =
     (if useAlternativeTimezone st then getAlternativeTimezone (userLocation st)
      else getUserTimezone st rt)"

definition getActiveCityName :: "DateTimeService \<Rightarrow> string" where
  "getActiveCityName st =
     (if useAlternativeTimezone st then getAlternativeCityName (userLocation st)
      else (case userLocation st of
              Some l \<Rightarrow> if city l \<noteq> [] then city l else formatLocationForDisplay l
            | None \<Rightarrow> ''Your Area''))"

text \<open>The greeting word chosen for an hour of the day.\<close>

definition greetingForHour :: "int \<Rightarrow> string" where
  "greetingForHour hour =
     (if hour \<ge> 5 \<and> hour < 10 then ''Good Morning''
      else if hour \<ge> 10 \<and> hour < 12 then ''Late Morning Vibes!''
      else if hour \<ge> 12 \<and> hour < 17 then ''Good Afternoon''
      else if hour \<ge> 17 \<and> hour < 21 then ''Good Evening''
      else ''Night Owl in'')"

definition getGreetingMessage :: "DateTimeService \<Rightarrow> Runtime \<Rightarrow> Date \<Rightarrow> string" where
  "getGreetingMessage st rt now =
     (let activeTimezone = getActiveTimezone st rt;
          currentTime = getCurrentTimeInTimezone rt now activeTimezone;
          hour = getHours rt currentTime;
          greeting = greetingForHour hour;
          cityName = getActiveCityName st
      in greeting @ '' '' @ cityName @ ''!'')"

section \<open>APIService\<close>

text \<open>
  The records the remote API returns. The API module's own \<open>StoreOverride\<close> interface
  is named \<open>ApiStoreOverride\<close> here, to tell it from the internal one. The \<open>id\<close> fields
  are written \<open>api_id\<close>.
\<close>

record StoreTime =
  api_id :: string
  day_of_week :: nat
  is_open :: bool
  start_time :: string
  end_time :: string

record ApiStoreOverride =
  api_id :: string
  day :: nat
  month :: nat
  is_open :: bool
  start_time :: "string option"
  end_time :: "string option"

record 'a APIResponse =
  data :: 'a
  error :: "string option"

text \<open>
  \<open>convertStoreTime\<close>. The object it returns also carries \<open>isOpen\<close>, which is no
  field of \<open>StoreHours\<close> and which nothing reads.
\<close>

definition convertStoreTime :: "StoreTime \<Rightarrow> StoreHours" where
  "convertStoreTime apiStoreTime =
     \<lparr>dayOfWeek = day_of_week apiStoreTime,
      openTime = StoreTime.start_time apiStoreTime,
      closeTime = StoreTime.end_time apiStoreTime\<rparr>"

definition convertStoreOverride :: "ApiStoreOverride \<Rightarrow> StoreOverride" where
  "convertStoreOverride apiOverride =
     (let month = padStart (toString (month apiOverride)) 2 (CHR ''0'');
          day = padStart (toString (day apiOverride)) 2 (CHR ''0'');
          dateString = ''2025-'' @ month @ ''-'' @ day
      in \<lparr>date = dateString,
          isOpen = ApiStoreOverride.is_open apiOverride,
          openTime = ApiStoreOverride.start_time apiOverride,
          closeTime = ApiStoreOverride.end_time apiOverride,
          reason = Some (''Override for '' @ month @ ''/'' @ day)\<rparr>)"

text \<open>
  An optional string used as a condition: \<open>undefined\<close> and the empty string are falsy.
\<close>

definition truthy :: "string option \<Rightarrow> bool" where
  "truthy e = (case e of None \<Rightarrow> False | Some s \<Rightarrow> s \<noteq> [])"

definition orOK :: "string option \<Rightarrow> string" where
  "orOK e = (case e of None \<Rightarrow> ''OK'' | Some s \<Rightarrow> if s \<noteq> [] then s else ''OK'')"

record StoreConfigResult =
  storeTimes :: "StoreTime list"
  storeOverrides :: "ApiStoreOverride list"
  config_error :: "string option"

text \<open>
  \<open>getStoreConfig\<close>, from the two responses \<open>getStoreTimes\<close> and \<open>getStoreOverrides\<close>
  resolved with.
\<close>

definition getStoreConfig ::
  "StoreTime list APIResponse \<Rightarrow> ApiStoreOverride list APIResponse \<Rightarrow> StoreConfigResult" where
  "getStoreConfig timesResponse overridesResponse =
     (let hasError = (truthy (error timesResponse) \<or> truthy (error overridesResponse))
      in \<lparr>storeTimes = data timesResponse,
          storeOverrides = data overridesResponse,
          config_error =
            (if hasError
             then Some (''Times: '' @ orOK (error timesResponse) @ '', Overrides: ''
                        @ orOK (error overridesResponse))
             else None)\<rparr>)"

section \<open>DateTimeService: loading the configuration\<close>

text \<open>
  What \<open>await APIService.getStoreConfig()\<close> comes back with: a result, or an exception
  thrown inside the \<open>try\<close> block.
\<close>

datatype FetchOutcome = Returned StoreConfigResult | Threw

definition fallbackConfig :: StoreConfig where
  "fallbackConfig =
     \<lparr>StoreConfig.timezone = ''America/New_York'',
      hours =
        [\<lparr>dayOfWeek = 0, openTime = ''10:00'', closeTime = ''18:00''\<rparr>,
         \<lparr>dayOfWeek = 1, openTime = ''09:00'', closeTime = ''17:00''\<rparr>,
         \<lparr>dayOfWeek = 2, openTime = ''09:00'', closeTime = ''17:00''\<rparr>,
         \<lparr>dayOfWeek = 3, openTime = ''09:00'', closeTime = ''17:00''\<rparr>,
         \<lparr>dayOfWeek = 4, openTime = ''09:00'', closeTime = ''17:00''\<rparr>,
         \<lparr>dayOfWeek = 5, openTime = ''09:00'', closeTime = ''17:00''\<rparr>,
         \<lparr>dayOfWeek = 6, openTime = ''10:00'', closeTime = ''16:00''\<rparr>],
      overrides = []\<rparr>"

text \<open>
  \<open>initializeStoreConfig\<close>: the new value of the service's state. The method returns
  nothing and catches every exception of its body; scheduling the reminder afterwards
  changes no field of the state.
\<close>

definition initializeStoreConfig :: "DateTimeService \<Rightarrow> FetchOutcome \<Rightarrow> DateTimeService" where
  "initializeStoreConfig st outcome =
     (case outcome of
        Threw \<Rightarrow> st\<lparr>STORE_CONFIG := fallbackConfig, isInitialized := True\<rparr>
      | Returned r \<Rightarrow>
          if truthy (config_error r)
          then st\<lparr>STORE_CONFIG := fallbackConfig, isInitialized := True\<rparr>
          else st\<lparr>STORE_CONFIG :=
                    \<lparr>StoreConfig.timezone = ''America/New_York'',
                     hours = map convertStoreTime (filter StoreTime.is_open (storeTimes r)),
                     overrides = map convertStoreOverride (storeOverrides r)\<rparr>,
                  isInitialized := True\<rparr>)"

section \<open>NotificationService\<close>

type_synonym StoreOpeningTime = StoreHours

text \<open>
  The loop \<open>for (let i = 1; i <= 7; i++)\<close> of \<open>getNextStoreOpeningTime\<close>, over the values
  of \<open>i\<close> still to come. The weekday of an invalid \<open>futureDate\<close> is \<open>NaN\<close>, which equals
  no \<open>dayOfWeek\<close>.
\<close>

fun scanNextDays ::
  "Runtime \<Rightarrow> StoreConfig \<Rightarrow> Date \<Rightarrow> int list \<Rightarrow> StoreOpeningTime option" where
  "scanNextDays rt storeConfig now [] = None"
| "scanNextDays rt storeConfig now (i # rest) =
     (case setDate rt now (getDate rt now + i) of
        InvalidDate \<Rightarrow> scanNextDays rt storeConfig now rest
      | DateOf futureDate \<Rightarrow>
          (let futureDayOfWeek = getDay rt futureDate;
               futureApiDayOfWeek = (if futureDayOfWeek = 0 then 7 else futureDayOfWeek)
           in case find (\<lambda>h. dayOfWeek h = futureApiDayOfWeek) (hours storeConfig) of
                Some futureHours \<Rightarrow>
                  Some \<lparr>dayOfWeek = futureApiDayOfWeek,
                        openTime = StoreHours.openTime futureHours,
                        closeTime = StoreHours.closeTime futureHours\<rparr>
              | None \<Rightarrow> scanNextDays rt storeConfig now rest))"

definition getNextStoreOpeningTime ::
  "Runtime \<Rightarrow> StoreConfig \<Rightarrow> Date \<Rightarrow> StoreOpeningTime option" where
  "getNextStoreOpeningTime rt storeConfig now =
     (let currentDayOfWeek = getDay rt now;
          currentTime = toTimeString5 rt now;
          apiDayOfWeek = (if currentDayOfWeek = 0 then 7 else currentDayOfWeek)
      in case find (\<lambda>h. dayOfWeek h = apiDayOfWeek) (hours storeConfig) of
           Some todayHours \<Rightarrow>
             if string_less currentTime (StoreHours.openTime todayHours)
             then Some \<lparr>dayOfWeek = apiDayOfWeek,
                        openTime = StoreHours.openTime todayHours,
                        closeTime = StoreHours.closeTime todayHours\<rparr>
             else scanNextDays rt storeConfig now [1, 2, 3, 4, 5, 6, 7]
         | None \<Rightarrow> scanNextDays rt storeConfig now [1, 2, 3, 4, 5, 6, 7])"

text \<open>
  \<open>calculateNotificationTime\<close> returns \<open>Date | null\<close>: \<open>None\<close> is \<open>null\<close>, which only its
  \<open>catch\<close> block returns. An invalid \<open>notificationDate\<close> is not \<open><= now\<close> and is returned
  as it is.
\<close>

definition calculateNotificationTime ::
  "Runtime \<Rightarrow> Date \<Rightarrow> StoreOpeningTime \<Rightarrow> DateObject option" where
  "calculateNotificationTime rt now openingTime =
     (case parseHourMinute (StoreHours.openTime openingTime) of
        None \<Rightarrow> Some InvalidDate
      | Some (openHour, openMinute) \<Rightarrow>
          (case setHours rt now (openHour - 1) openMinute 0 0 of
             InvalidDate \<Rightarrow> Some InvalidDate
           | DateOf notificationDate \<Rightarrow>
               if notificationDate \<le> now
               then (let daysUntilNext =
                           (int (dayOfWeek openingTime) - int (getDay rt now) + 7) mod 7
                     in if daysUntilNext = 0
                        then Some (setDate rt notificationDate (getDate rt now + 7))
                        else Some (setDate rt notificationDate
                                     (getDate rt now + daysUntilNext)))
               else Some (DateOf notificationDate)))"

section \<open>Notions and inputs the theorems are stated with\<close>

text \<open>
  A device in New York, with the daylight-saving period of 2025. New York is 300 minutes
  west of UTC, and 240 from 2025-03-09T07:00Z (the time value 1741503600000) until
  2025-11-02T06:00Z (1762063200000); Los Angeles is 480 minutes west, and 420 from
  2025-03-09T10:00Z (1741514400000) until 2025-11-02T09:00Z (1762074000000); every other
  zone is at UTC. On the wall clock the summer offset holds from 03:00 on 2025-03-09
  (1741489200000) until 02:00 on 2025-11-02 (1762048800000): a wall-clock time that the
  switch skips or repeats is read with the offset before the switch, as ECMAScript has
  it.
\<close>

definition runtimeNewYork :: Runtime where
  "runtimeNewYork =
     \<lparr>deviceTimeZone = ''America/New_York'',
      zoneOffset = (\<lambda>z t.
        if z = ''America/New_York''
        then (if 1741503600000 \<le> t \<and> t < 1762063200000 then - 240 else - 300)
        else if z = ''America/Los_Angeles''
        then (if 1741514400000 \<le> t \<and> t < 1762074000000 then - 420 else - 480)
        else 0),
      wallOffset = (\<lambda>z w.
        if z = ''America/New_York''
        then (if 1741489200000 \<le> w \<and> w < 1762048800000 then - 240 else - 300)
        else if z = ''America/Los_Angeles''
        then (if 1741489200000 \<le> w \<and> w < 1762048800000 then - 420 else - 480)
        else 0)\<rparr>"

text \<open>
  Mondays open 09:00 to 17:00, and overrides closing 2025-12-22 (a Monday) and each of
  the seven days after it.
\<close>

definition closedWeekConfig :: StoreConfig where
  "closedWeekConfig =
     \<lparr>StoreConfig.timezone = ''America/New_York'',
      hours = [\<lparr>dayOfWeek = 1, openTime = ''09:00'', closeTime = ''17:00''\<rparr>],
      overrides =
        [\<lparr>date = ''2025-12-22'', isOpen = False, openTime = None,
           closeTime = None, reason = None\<rparr>,
         \<lparr>date = ''2025-12-23'', isOpen = False, openTime = None,
           closeTime = None, reason = None\<rparr>,
         \<lparr>date = ''2025-12-24'', isOpen = False, openTime = None,
           closeTime = None, reason = None\<rparr>,
         \<lparr>date = ''2025-12-25'', isOpen = False, openTime = None,
           closeTime = None, reason = None\<rparr>,
         \<lparr>date = ''2025-12-26'', isOpen = False, openTime = None,
           closeTime = None, reason = None\<rparr>,
         \<lparr>date = ''2025-12-27'', isOpen = False, openTime = None,
           closeTime = None, reason = None\<rparr>,
         \<lparr>date = ''2025-12-28'', isOpen = False, openTime = None,
           closeTime = None, reason = None\<rparr>,
         \<lparr>date = ''2025-12-29'', isOpen = False, openTime = None,
           closeTime = None, reason = None\<rparr>]\<rparr>"

text \<open>
  A fetch outcome reports an error when the awaited call threw, or when the result's
  \<open>error\<close> field is truthy, which is what \<open>if (error)\<close> tests.
\<close>

definition reportsError :: "FetchOutcome \<Rightarrow> bool" where
  "reportsError outcome =
     (case outcome of Threw \<Rightarrow> True | Returned r \<Rightarrow> truthy (config_error r))"




section \<open>Evaluating the model at a concrete input\<close>

text \<open>
  The definitions of the runtime, for the simplifier to compute with. A \<open>let\<close> is
  unfolded once the value it binds has been computed.
\<close>

lemma Let_weak_cong: "a = b \<Longrightarrow> Let a f = Let b f"
  by simp

lemmas evaluation =
  civil_from_days_def civil_of_doe_def civil_of_yoe_def civil_of_doy_def civil_of_month_def
  days_from_civil_def LocalTime_def UTC_def TimeClip_def Day_def TimeWithinDay_def
  WeekDay_def HourFromTime_def MinFromTime_def SecFromTime_def msFromTime_def MakeTime_def
  MakeDate_def MakeDay_def YearFromTime_def MonthFromTime_def DateFromTime_def getDay_def
  getDate_def getHours_def getMinutes_def setHours_def setMinutes_def setDate_def
  digit_char_def padStart_def pad2_def toTimeString5_def is_digit_def Number_of_def
  parseHourMinute_def getCurrentTimeInTimezone_def formatDateForAPI_def runtimeNewYork_def
  Let_def

section \<open>The runtime while the device's zone keeps one offset\<close>








section \<open>Day resolution\<close>

text \<open>
  C1. For every configuration and every date whose date string has a \<open>DateOverride\<close>,
  \<open>isStoreOpen\<close> returns that override's \<open>isOpen\<close>, whatever the weekly-hours table
  holds: the table can be replaced by any other and the result stays the override's.
  The override found is the first one for the date string, as \<open>Array.prototype.find\<close>
  returns it.
\<close>

theorem isStoreOpen_override_precedence:
  assumes "find (\<lambda>ov. date ov = formatDateForAPI rt d tz) (overrides cfg) = Some override"
  shows "isStoreOpen rt (cfg\<lparr>hours := weekly\<rparr>) d tz = isOpen override"
  using assms by (simp add: isStoreOpen_def)

text \<open>
  The scenario of the specification: the time value 1766682000000 is 2025-12-25, 12:00
  in New York, a Thursday; Thursdays are open 09:00 to 17:00 and the override closes the
  day.
\<close>

theorem isStoreOpen_override_precedence_witness:
  "getDay runtimeNewYork 1766682000000 = 4 \<and>
   formatDateForAPI runtimeNewYork 1766682000000 ''America/New_York'' = ''2025-12-25'' \<and>
   isStoreOpen runtimeNewYork
     \<lparr>StoreConfig.timezone = ''America/New_York'',
      hours = [\<lparr>dayOfWeek = 4, openTime = ''09:00'', closeTime = ''17:00''\<rparr>],
      overrides = [\<lparr>date = ''2025-12-25'', isOpen = False, openTime = None,
                     closeTime = None, reason = None\<rparr>]\<rparr>
     1766682000000 ''America/New_York'' = False"
proof -
  have weekday: "getDay runtimeNewYork 1766682000000 = 4"
    by (simp add: evaluation cong: Let_weak_cong)
  have day: "formatDateForAPI runtimeNewYork 1766682000000 ''America/New_York'' = ''2025-12-25''"
    by (simp add: evaluation cong: Let_weak_cong)
  have found:
    "find (\<lambda>ov. date ov = formatDateForAPI runtimeNewYork 1766682000000 ''America/New_York'')
       (overrides \<lparr>StoreConfig.timezone = ''America/New_York'', hours = [],
          overrides = [\<lparr>date = ''2025-12-25'', isOpen = False, openTime = None,
                         closeTime = None, reason = None\<rparr>]\<rparr>)
     = Some \<lparr>date = ''2025-12-25'', isOpen = False, openTime = None,
              closeTime = None, reason = None\<rparr>"
    by (simp add: day)
  from isStoreOpen_override_precedence [OF found,
      of "[\<lparr>dayOfWeek = 4, openTime = ''09:00'', closeTime = ''17:00''\<rparr>]"]
  show ?thesis
    by (simp add: weekday day)
qed

text \<open>
  C10. For every timezone and every configuration, the object \<open>getStoreStatus\<close> returns
  carries the \<open>isOpen\<close> flag only: its optional \<open>nextOpen\<close> field is always absent.
\<close>

theorem getStoreStatus_nextOpen_absent:
  "nextOpen (getStoreStatus rt cfg now tz) = None"
  by (simp add: getStoreStatus_def Let_def)

section \<open>Loading the configuration\<close>

text \<open>
  C9. For every fetch outcome that reports an error, \<open>initializeStoreConfig\<close> leaves
  exactly the hardcoded default in \<open>STORE_CONFIG\<close>: Sunday 10:00 to 18:00, Monday to
  Friday 09:00 to 17:00, Saturday 10:00 to 16:00, timezone \<open>America/New_York\<close>, no
  overrides. The method has no error result: it completes, marking the service
  initialized.
\<close>

theorem initializeStoreConfig_fallback:
  assumes "reportsError outcome"
  shows "STORE_CONFIG (initializeStoreConfig st outcome) =
           \<lparr>StoreConfig.timezone = ''America/New_York'',
            hours =
              [\<lparr>dayOfWeek = 0, openTime = ''10:00'', closeTime = ''18:00''\<rparr>,
               \<lparr>dayOfWeek = 1, openTime = ''09:00'', closeTime = ''17:00''\<rparr>,
               \<lparr>dayOfWeek = 2, openTime = ''09:00'', closeTime = ''17:00''\<rparr>,
               \<lparr>dayOfWeek = 3, openTime = ''09:00'', closeTime = ''17:00''\<rparr>,
               \<lparr>dayOfWeek = 4, openTime = ''09:00'', closeTime = ''17:00''\<rparr>,
               \<lparr>dayOfWeek = 5, openTime = ''09:00'', closeTime = ''17:00''\<rparr>,
               \<lparr>dayOfWeek = 6, openTime = ''10:00'', closeTime = ''16:00''\<rparr>],
            overrides = []\<rparr>
         \<and> isInitialized (initializeStoreConfig st outcome)"
proof (cases outcome)
  case (Returned r)
  with assms have "truthy (config_error r)"
    by (simp add: reportsError_def)
  with Returned show ?thesis
    by (simp add: initializeStoreConfig_def fallbackConfig_def)
next
  case Threw
  then show ?thesis
    by (simp add: initializeStoreConfig_def fallbackConfig_def)
qed

text \<open>
  The request for the store times timed out: \<open>getStoreConfig\<close> reports it, and the
  configuration held before is replaced by the default.
\<close>

theorem initializeStoreConfig_fallback_witness:
  "reportsError
     (Returned (getStoreConfig \<lparr>data = [], error = Some ''Request timeout''\<rparr>
                               \<lparr>data = [], error = None\<rparr>))
   \<and> hours (STORE_CONFIG
        (initializeStoreConfig
           \<lparr>STORE_CONFIG = \<lparr>StoreConfig.timezone = ''America/New_York'', hours = [],
                             overrides = []\<rparr>,
            useAlternativeTimezone = False, userLocation = None, isInitialized = False\<rparr>
           (Returned (getStoreConfig \<lparr>data = [], error = Some ''Request timeout''\<rparr>
                                     \<lparr>data = [], error = None\<rparr>))))
     = [\<lparr>dayOfWeek = 0, openTime = ''10:00'', closeTime = ''18:00''\<rparr>,
        \<lparr>dayOfWeek = 1, openTime = ''09:00'', closeTime = ''17:00''\<rparr>,
        \<lparr>dayOfWeek = 2, openTime = ''09:00'', closeTime = ''17:00''\<rparr>,
        \<lparr>dayOfWeek = 3, openTime = ''09:00'', closeTime = ''17:00''\<rparr>,
        \<lparr>dayOfWeek = 4, openTime = ''09:00'', closeTime = ''17:00''\<rparr>,
        \<lparr>dayOfWeek = 5, openTime = ''09:00'', closeTime = ''17:00''\<rparr>,
        \<lparr>dayOfWeek = 6, openTime = ''10:00'', closeTime = ''16:00''\<rparr>]"
proof -
  have reported:
    "reportsError
       (Returned (getStoreConfig \<lparr>data = [], error = Some ''Request timeout''\<rparr>
                                 \<lparr>data = [], error = None\<rparr>))"
    by (simp add: reportsError_def getStoreConfig_def truthy_def)
  from initializeStoreConfig_fallback [OF reported] reported
  show ?thesis
    by simp
qed

section \<open>Overrides without a time window\<close>

text \<open>
  C8, as the specification states it, would have the configuration refused with an
  \<open>InvalidOverride\<close> error when an override is marked open and has no time pair. The
  code has no such error: the conversion copies the record as it is, and the
  configuration that is stored holds an open override with no window.
\<close>

theorem open_override_without_window_accepted:
  "overrides (STORE_CONFIG
     (initializeStoreConfig
        \<lparr>STORE_CONFIG = \<lparr>StoreConfig.timezone = ''America/New_York'', hours = [],
                          overrides = []\<rparr>,
         useAlternativeTimezone = False, userLocation = None, isInitialized = False\<rparr>
        (Returned \<lparr>storeTimes = [],
                   storeOverrides = [\<lparr>api_id = ''1'', day = 25, month = 12, is_open = True,
                                       start_time = None, end_time = None\<rparr>],
                   config_error = None\<rparr>)))
   = [\<lparr>date = ''2025-12-25'', isOpen = True, openTime = None, closeTime = None,
       reason = Some ''Override for 12/25''\<rparr>]"
  by (simp add: evaluation convertStoreOverride_def initializeStoreConfig_def truthy_def
      cong: Let_weak_cong)

text \<open>
  C8, amended. Every override record is accepted, with or without its time pair: the
  conversion never fails and copies \<open>is_open\<close>, \<open>start_time\<close> and \<open>end_time\<close> unchanged
  into the override of the date \<open>2025-MM-DD\<close>; when the fetch reports no error, the
  configuration stored holds the conversion of every override record fetched.
\<close>

theorem convertStoreOverride_copies:
  "isOpen (convertStoreOverride a) = ApiStoreOverride.is_open a
   \<and> StoreOverride.openTime (convertStoreOverride a) = ApiStoreOverride.start_time a
   \<and> StoreOverride.closeTime (convertStoreOverride a) = ApiStoreOverride.end_time a
   \<and> date (convertStoreOverride a) =
         ''2025-'' @ padStart (toString (month a)) 2 (CHR ''0'') @ ''-''
           @ padStart (toString (day a)) 2 (CHR ''0'')
   \<and> overrides (STORE_CONFIG (initializeStoreConfig st
         (Returned \<lparr>storeTimes = ts, storeOverrides = os, config_error = None\<rparr>)))
       = map convertStoreOverride os"
  by (simp add: convertStoreOverride_def Let_def initializeStoreConfig_def truthy_def)

section \<open>The status query\<close>

text \<open>
  C3. The specification has the open check answer true exactly when the date resolves
  open and the instant lies in the window from \<open>openTime\<close> to \<open>closeTime\<close>.
  \<open>getStoreStatus\<close> is the check the application has: the home screen shows its answer
  as \<open>Open\<close> or \<open>Closed\<close> and asks for it again every minute. It applies the day-level
  \<open>isStoreOpen\<close> to the current \<open>Date\<close> and reads no \<open>openTime\<close> or \<open>closeTime\<close>, which
  \<open>getNextStoreOpeningTime\<close>, beside it, does compare with the clock. On Monday
  2025-12-22 at 23:00 in New York (the time value 1766462400000), with Mondays open
  09:00 to 17:00 and no override, \<open>getStoreStatus\<close> answers open, six hours after
  closing time.
\<close>

theorem getStoreStatus_open_outside_window:
  "status_isOpen (getStoreStatus runtimeNewYork
     \<lparr>StoreConfig.timezone = ''America/New_York'',
      hours = [\<lparr>dayOfWeek = 1, openTime = ''09:00'', closeTime = ''17:00''\<rparr>],
      overrides = []\<rparr>
     1766462400000 ''America/New_York'')
   \<and> getDay runtimeNewYork
         (getCurrentTimeInTimezone runtimeNewYork 1766462400000 ''America/New_York'') = 1
   \<and> toTimeString5 runtimeNewYork
         (getCurrentTimeInTimezone runtimeNewYork 1766462400000 ''America/New_York'') = ''23:00''
   \<and> \<not> string_less ''23:00'' ''17:00''"
  by (simp add: evaluation isStoreOpen_def getStoreStatus_def cong: Let_weak_cong)

section \<open>Slot generation\<close>






text \<open>
  The slots follow the device's wall clock through a daylight-saving switch, so the
  window's length on the clock is then not the time the loop runs over. On Sunday
  2025-03-09 in New York (the time value 1741532400000 is 11:00 that day), with Sundays
  open 01:00 to 04:00, the clock goes from 02:00 to 03:00 and there are 8 slots for the
  180 minutes between the two time strings.
\<close>

lemma generateTimeSlots_clock_change:
  "map_option (map time) (generateTimeSlots runtimeNewYork
     \<lparr>StoreConfig.timezone = ''America/New_York'',
      hours = [\<lparr>dayOfWeek = 0, openTime = ''01:00'', closeTime = ''04:00''\<rparr>],
      overrides = []\<rparr>
     1741532400000 ''America/New_York'')
   = Some [''01:00'', ''01:15'', ''01:30'', ''01:45'', ''03:00'', ''03:15'', ''03:30'', ''03:45'']"
  by (simp add: evaluation isStoreOpen_def generateTimeSlots_def makeSlot_def
      toLocaleTimeString_def slotLoop.simps cong: Let_weak_cong)




section \<open>Where the code departs from the specification\<close>

text \<open>
  C2. The specification has the slots of a date with an open override start at the
  override's \<open>openTime\<close>, the weekly table being ignored. \<open>generateTimeSlots\<close> asks the
  override only whether the day is open and takes the window from the weekly table. On
  Thursday 2025-12-25 (the time value 1766682000000), with Thursdays open 09:00 to 09:30
  and an override opening that date from 12:00 to 13:00, the slots are those of the
  weekly window; with no weekly entry for Thursday the date resolves open and has no
  slot at all.
\<close>

theorem generateTimeSlots_override_window_unused:
  "map_option (map time) (generateTimeSlots runtimeNewYork
     \<lparr>StoreConfig.timezone = ''America/New_York'',
      hours = [\<lparr>dayOfWeek = 4, openTime = ''09:00'', closeTime = ''09:30''\<rparr>],
      overrides = [\<lparr>date = ''2025-12-25'', isOpen = True, openTime = Some ''12:00'',
                     closeTime = Some ''13:00'', reason = None\<rparr>]\<rparr>
     1766682000000 ''America/New_York'') = Some [''09:00'', ''09:15'']
   \<and> isStoreOpen runtimeNewYork
     \<lparr>StoreConfig.timezone = ''America/New_York'',
      hours = [],
      overrides = [\<lparr>date = ''2025-12-25'', isOpen = True, openTime = Some ''12:00'',
                     closeTime = Some ''13:00'', reason = None\<rparr>]\<rparr>
     1766682000000 ''America/New_York''
   \<and> generateTimeSlots runtimeNewYork
     \<lparr>StoreConfig.timezone = ''America/New_York'',
      hours = [],
      overrides = [\<lparr>date = ''2025-12-25'', isOpen = True, openTime = Some ''12:00'',
                     closeTime = Some ''13:00'', reason = None\<rparr>]\<rparr>
     1766682000000 ''America/New_York'' = Some []"
  by (simp add: evaluation isStoreOpen_def generateTimeSlots_def makeSlot_def
      toLocaleTimeString_def slotLoop.simps cong: Let_weak_cong)

text \<open>
  C5. The specification has the next-opening search return none when no date of the
  horizon resolves open. \<open>getNextStoreOpeningTime\<close> reads the weekly table only. On
  Monday 2025-12-22 at 07:00 in New York (the time value 1766404800000), with the
  configuration \<open>closedWeekConfig\<close> (Mondays open 09:00 to 17:00, overrides closing that
  day and each of the seven days after it), no date of the horizon resolves open, and
  the search returns Monday's opening.
\<close>

theorem getNextStoreOpeningTime_overrides_unread:
  "getNextStoreOpeningTime runtimeNewYork closedWeekConfig 1766404800000
     = Some \<lparr>dayOfWeek = 1, openTime = ''09:00'', closeTime = ''17:00''\<rparr>
   \<and> [isStoreOpen runtimeNewYork closedWeekConfig 1766404800000 ''America/New_York'',
       isStoreOpen runtimeNewYork closedWeekConfig (1766404800000 + 1 * 86400000) ''America/New_York'',
       isStoreOpen runtimeNewYork closedWeekConfig (1766404800000 + 2 * 86400000) ''America/New_York'',
       isStoreOpen runtimeNewYork closedWeekConfig (1766404800000 + 3 * 86400000) ''America/New_York'',
       isStoreOpen runtimeNewYork closedWeekConfig (1766404800000 + 4 * 86400000) ''America/New_York'',
       isStoreOpen runtimeNewYork closedWeekConfig (1766404800000 + 5 * 86400000) ''America/New_York'',
       isStoreOpen runtimeNewYork closedWeekConfig (1766404800000 + 6 * 86400000) ''America/New_York'',
       isStoreOpen runtimeNewYork closedWeekConfig (1766404800000 + 7 * 86400000) ''America/New_York'']
     = [False, False, False, False, False, False, False, False]"
  by (simp add: evaluation isStoreOpen_def getNextStoreOpeningTime_def closedWeekConfig_def
      cong: Let_weak_cong)

text \<open>
  C6. The specification, and the comment of \<open>calculateNotificationTime\<close>, put the
  reminder 60 minutes before the opening, on the day before when that crosses midnight.
  The method subtracts the hour from today's date and then, when that is past, sets the
  day of the month from today's. On Wednesday 2025-12-10 at 12:00 (the time value
  1765386000000), with Thursdays opening at 00:30, the next opening is Thursday's and the
  reminder is set for Thursday 2025-12-11 at 23:30, which is 23 hours after the opening
  and not 2025-12-10 at 23:30. On Saturday 2025-12-20 at 07:00 (1766232000000), with
  Mondays opening at 09:00, the reminder is set for that Saturday at 08:00, two days
  before the opening.
\<close>

theorem calculateNotificationTime_wrong_day:
  "getNextStoreOpeningTime runtimeNewYork
     \<lparr>StoreConfig.timezone = ''America/New_York'',
      hours = [\<lparr>dayOfWeek = 4, openTime = ''00:30'', closeTime = ''08:00''\<rparr>],
      overrides = []\<rparr> 1765386000000
     = Some \<lparr>dayOfWeek = 4, openTime = ''00:30'', closeTime = ''08:00''\<rparr>
   \<and> calculateNotificationTime runtimeNewYork 1765386000000
       \<lparr>dayOfWeek = 4, openTime = ''00:30'', closeTime = ''08:00''\<rparr>
     = Some (DateOf 1765513800000)
   \<and> formatDateForAPI runtimeNewYork 1765513800000 ''America/New_York'' = ''2025-12-11''
   \<and> toTimeString5 runtimeNewYork 1765513800000 = ''23:30''
   \<and> getNextStoreOpeningTime runtimeNewYork
     \<lparr>StoreConfig.timezone = ''America/New_York'',
      hours = [\<lparr>dayOfWeek = 1, openTime = ''09:00'', closeTime = ''17:00''\<rparr>],
      overrides = []\<rparr> 1766232000000
     = Some \<lparr>dayOfWeek = 1, openTime = ''09:00'', closeTime = ''17:00''\<rparr>
   \<and> calculateNotificationTime runtimeNewYork 1766232000000
       \<lparr>dayOfWeek = 1, openTime = ''09:00'', closeTime = ''17:00''\<rparr>
     = Some (DateOf 1766235600000)
   \<and> formatDateForAPI runtimeNewYork 1766235600000 ''America/New_York'' = ''2025-12-20''
   \<and> toTimeString5 runtimeNewYork 1766235600000 = ''08:00''
   \<and> getDay runtimeNewYork 1766235600000 = 6"
  by (simp add: evaluation getNextStoreOpeningTime_def calculateNotificationTime_def
      cong: Let_weak_cong)

text \<open>
  C7. The specification, and the tests of the repository, expect
  \<open>Good Morning, NYC!\<close> and \<open>Late Morning Vibes! NYC\<close>. \<open>getGreetingMessage\<close> joins the
  greeting, a blank, the city and an exclamation mark: there is no comma after the
  greeting, and the late-morning text ends with an exclamation mark of its own. The
  instants are 2024-01-01 at 07:30 and at 10:30 in New York, the alternative timezone
  being active with no location known (city \<open>NYC\<close>).
\<close>

theorem getGreetingMessage_strings:
  "getGreetingMessage
     \<lparr>STORE_CONFIG = fallbackConfig, useAlternativeTimezone = True, userLocation = None,
      isInitialized = True\<rparr> runtimeNewYork 1704112200000 = ''Good Morning NYC!''
   \<and> getGreetingMessage
     \<lparr>STORE_CONFIG = fallbackConfig, useAlternativeTimezone = True, userLocation = None,
      isInitialized = True\<rparr> runtimeNewYork 1704123000000 = ''Late Morning Vibes! NYC!''"
  by (simp add: evaluation getGreetingMessage_def getActiveTimezone_def
      getActiveCityName_def getAlternativeTimezone_def getAlternativeCityName_def
      greetingForHour_def cong: Let_weak_cong)

end
